theory Spec2Isabelle
  imports Complex_Main "HOL-Library.Sublist"
begin

section \<open>Values, dtypes and data frames\<close>

text \<open>
  The quickchart module reads a pandas data frame. Of a cell value it observes only
  whether it is hashable, whether it is an iterable container, which values are the same
  key of pandas' hash table (\<open>Series.unique\<close>) and, in a numeric column, how numpy orders
  two values. The value type keeps exactly that much:
  \<^item> \<open>PNum r\<close> is a finite Python or numpy number (an int or a float, by its numeric
    value; equal numbers are equal and hash-equal in Python, and \<open>True\<close>/\<open>False\<close> are the
    ints 1 and 0);
  \<^item> \<open>PNaN\<close> is the float nan, which every numpy comparison answers with False and
    which \<open>unique\<close> counts as one key;
  \<^item> \<open>PStr\<close> and \<open>PBytes\<close> are \<open>str\<close> and \<open>bytes\<close>, \<open>PTime\<close> a timestamp (nanoseconds),
    \<open>PList\<close> a list (unhashable) and \<open>PTuple\<close> a tuple (hashable when its items are).
\<close>

datatype pyval =
    PNone
  | PNum rat
  | PNaN
  | PStr string
  | PBytes string
  | PTime int
  | PList "pyval list"
  | PTuple "pyval list"

text \<open>
  The dtypes: six numpy dtypes and three pandas extension dtypes (which are not
  instances of \<open>np.dtype\<close>).
\<close>

datatype dtype =
    NpObject
  | NpBool
  | NpInt64
  | NpFloat64
  | NpDatetime64_ns
  | NpDatetime64_s
  | ExtDatetimeTZ
  | ExtInt64
  | ExtCategorical

text \<open>\<open>dtype.kind\<close>.\<close>

fun kind :: "dtype \<Rightarrow> char" where
  "kind NpObject = CHR ''O''"
| "kind NpBool = CHR ''b''"
| "kind NpInt64 = CHR ''i''"
| "kind NpFloat64 = CHR ''f''"
| "kind NpDatetime64_ns = CHR ''M''"
| "kind NpDatetime64_s = CHR ''M''"
| "kind ExtDatetimeTZ = CHR ''M''"
| "kind ExtInt64 = CHR ''i''"
| "kind ExtCategorical = CHR ''O''"

text \<open>\<open>isinstance(dtype, np.dtype)\<close>.\<close>

fun is_np_dtype :: "dtype \<Rightarrow> bool" where
  "is_np_dtype ExtDatetimeTZ = False"
| "is_np_dtype ExtInt64 = False"
| "is_np_dtype ExtCategorical = False"
| "is_np_dtype _ = True"

text \<open>\<open>pandas.api.types.is_numeric_dtype\<close>: ints, floats and bool, numpy's or nullable.\<close>

fun is_numeric_dtype :: "dtype \<Rightarrow> bool" where
  "is_numeric_dtype NpBool = True"
| "is_numeric_dtype NpInt64 = True"
| "is_numeric_dtype NpFloat64 = True"
| "is_numeric_dtype ExtInt64 = True"
| "is_numeric_dtype _ = False"

text \<open>\<open>np.issubdtype(dtype.base, np.number)\<close>, asked of numpy dtypes only.\<close>

fun issubdtype_number :: "dtype \<Rightarrow> bool" where
  "issubdtype_number NpInt64 = True"
| "issubdtype_number NpFloat64 = True"
| "issubdtype_number _ = False"

record series =
  dtype :: dtype
  vals :: "pyval list"

text \<open>
  A data frame: the ordered column labels (\<open>df.columns\<close>) and, for a label, the column of
  that label. A label may occur more than once in \<open>df.columns\<close>; then \<open>df[colname]\<close> is not
  a series but a data frame of the columns of that label, of which the code meets only
  the labels. The code looks up no label but those it took from \<open>df.columns\<close>.
\<close>

record dataframe =
  columns :: "string list"
  getitem :: "string \<Rightarrow> series"

datatype frame_item =
    ASeries series
  | AFrame "string list"

definition df_getitem :: "dataframe \<Rightarrow> string \<Rightarrow> frame_item" where
  "df_getitem df colname =
     (if count_list (columns df) colname \<le> 1 then ASeries (getitem df colname)
      else AFrame (filter (\<lambda>c. c = colname) (columns df)))"

text \<open>The values a column of a given dtype can hold.\<close>

fun conforms :: "dtype \<Rightarrow> pyval \<Rightarrow> bool" where
  "conforms NpObject v = True"
| "conforms ExtCategorical v = True"
| "conforms NpBool v = (v = PNum 0 \<or> v = PNum 1)"
| "conforms NpInt64 v = (case v of PNum r \<Rightarrow> r \<in> \<int> | _ \<Rightarrow> False)"
| "conforms ExtInt64 v = (case v of PNum r \<Rightarrow> r \<in> \<int> | PNone \<Rightarrow> True | _ \<Rightarrow> False)"
| "conforms NpFloat64 v = (case v of PNum r \<Rightarrow> True | PNaN \<Rightarrow> True | _ \<Rightarrow> False)"
| "conforms NpDatetime64_ns v = (case v of PTime t \<Rightarrow> True | _ \<Rightarrow> False)"
| "conforms NpDatetime64_s v = (case v of PTime t \<Rightarrow> True | _ \<Rightarrow> False)"
| "conforms ExtDatetimeTZ v = (case v of PTime t \<Rightarrow> True | _ \<Rightarrow> False)"

text \<open>
  A well-formed data frame: distinct column names, columns of one length, every value
  of the column's dtype.
\<close>

definition wf_dataframe :: "dataframe \<Rightarrow> bool" where
  "wf_dataframe df \<longleftrightarrow>
     distinct (columns df) \<and>
     list_all (\<lambda>c. list_all (\<lambda>c'. length (vals (getitem df c)) = length (vals (getitem df c')))
                 (columns df)) (columns df) \<and>
     list_all (\<lambda>c. list_all (conforms (dtype (getitem df c))) (vals (getitem df c))) (columns df)"

section \<open>Library functions the module calls\<close>

text \<open>\<open>pd.api.types.is_hashable\<close>: \<open>hash(x)\<close> does not raise.\<close>

fun is_hashable :: "pyval \<Rightarrow> bool" where
  "is_hashable (PList xs) = False"
| "is_hashable (PTuple xs) = list_all is_hashable xs"
| "is_hashable _ = True"

text \<open>\<open>Series.unique\<close>: the distinct values in order of first appearance.\<close>

fun unique :: "pyval list \<Rightarrow> pyval list" where
  "unique [] = []"
| "unique (x # xs) = x # unique (filter (\<lambda>y. y \<noteq> x) xs)"

text \<open>numpy's \<open><=\<close> on two elements of a numeric array.\<close>

fun np_le :: "pyval \<Rightarrow> pyval \<Rightarrow> bool" where
  "np_le (PNum a) (PNum b) = (a \<le> b)"
| "np_le _ _ = False"

text \<open>\<open>str.lower\<close> on ASCII names.\<close>

definition lower_char :: "char \<Rightarrow> char" where
  "lower_char c =
     (case map_of (zip ''ABCDEFGHIJKLMNOPQRSTUVWXYZ'' ''abcdefghijklmnopqrstuvwxyz'') c of
        Some l \<Rightarrow> l
      | None \<Rightarrow> c)"

definition lower :: "string \<Rightarrow> string" where
  "lower s = map lower_char s"

definition startswith :: "string \<Rightarrow> string \<Rightarrow> bool" where
  "startswith s p = (take (length p) s = p)"

definition endswith :: "string \<Rightarrow> string \<Rightarrow> bool" where
  "endswith s p = (length p \<le> length s \<and> drop (length s - length p) s = p)"

section \<open>Constants of the module\<close>

definition CATEGORICAL_DTYPES :: "dtype list" where
  "CATEGORICAL_DTYPES = [NpObject, NpBool]"

definition DATETIME_DTYPES :: "dtype list" where
  "DATETIME_DTYPES = [NpDatetime64_ns]"

definition DATETIME_DTYPE_KINDS :: "char list" where
  "DATETIME_DTYPE_KINDS = [CHR ''M'']"

definition DATETIME_COLNAME_PATTERNS :: "string list" where
  "DATETIME_COLNAME_PATTERNS = [''date'', ''datetime'', ''time'', ''timestamp'']"

definition DATETIME_COLNAMES :: "string list" where
  "DATETIME_COLNAMES = [''dt'', ''t'', ''ts'', ''year'']"

definition CATEGORICAL_LARGE_SIZE_THRESHOLD :: nat where
  "CATEGORICAL_LARGE_SIZE_THRESHOLD = 8"

section \<open>Exceptions\<close>

datatype error = ValueError | AttributeError

definition bind_result :: "error + 'a \<Rightarrow> ('a \<Rightarrow> error + 'b) \<Rightarrow> error + 'b" where
  "bind_result r f = (case r of Inl e \<Rightarrow> Inl e | Inr x \<Rightarrow> f x)"

section \<open>Classification of columns\<close>

text \<open>
  \<open>_is_monotonically_increasing_numeric\<close>. Handed a data frame it raises at
  \<open>series.dtype\<close>, which a data frame does not have.
\<close>

definition is_monotonically_increasing_numeric :: "frame_item \<Rightarrow> error + bool" where
  "is_monotonically_increasing_numeric item =
     (case item of
        AFrame labels \<Rightarrow> Inl AttributeError
      | ASeries series \<Rightarrow>
          if \<not> is_np_dtype (dtype series) then Inr False
          else Inr (issubdtype_number (dtype series) \<and>
                    list_all (\<lambda>(a, b). np_le a b)
                      (zip (butlast (vals series)) (tl (vals series)))))"

text \<open>
  \<open>_all_values_scalar\<close> and its local \<open>_is_non_scalar\<close>. Iterating a series gives its
  values, iterating a data frame gives its column labels, which are strings.
\<close>

fun is_non_scalar :: "pyval \<Rightarrow> bool" where
  "is_non_scalar (PList xs) = True"
| "is_non_scalar (PTuple xs) = True"
| "is_non_scalar _ = False"

definition all_values_scalar :: "frame_item \<Rightarrow> bool" where
  "all_values_scalar item =
     (case item of
        ASeries series \<Rightarrow> \<not> list_ex is_non_scalar (vals series)
      | AFrame labels \<Rightarrow> \<not> list_ex is_non_scalar (map PStr labels))"

text \<open>The local \<open>_matches_datetime_pattern\<close> of \<open>_classify_dtypes\<close>.\<close>

definition matches_datetime_pattern :: "string \<Rightarrow> bool" where
  "matches_datetime_pattern colname0 =
     (let colname = lower colname0
      in list_ex (\<lambda>p. startswith colname p \<or> endswith colname p) DATETIME_COLNAME_PATTERNS
         \<or> list_ex (\<lambda>c. colname = c) DATETIME_COLNAMES)"

text \<open>
  One pass of the body of the first loop of \<open>_classify_dtypes\<close>, on the five lists it
  appends to: the column goes to the list of the first branch that applies. Where
  \<open>df[colname]\<close> is a data frame, \<open>apply\<close> calls \<open>is_hashable\<close> on each of its columns, a
  series, which is not hashable: the first branch applies.
\<close>

type_synonym col_lists =
  "string list \<times> string list \<times> string list \<times> string list \<times> string list"

definition classify_column ::
  "dtype list \<Rightarrow> dtype list \<Rightarrow> char list \<Rightarrow> dataframe \<Rightarrow> col_lists \<Rightarrow> string \<times> dtype \<Rightarrow> col_lists"
where
  "classify_column categorical_dtypes datetime_dtypes datetime_dtype_kinds df st cd =
     (case (st, cd) of
        ((filtered_cols, numeric_cols, cat_cols, datetime_cols, singleton_cols),
         (colname, colname_dtype)) \<Rightarrow>
        (case df_getitem df colname of
           AFrame labels \<Rightarrow>
             (filtered_cols @ [colname], numeric_cols, cat_cols, datetime_cols, singleton_cols)
         | ASeries series \<Rightarrow>
             if \<not> list_all is_hashable (vals series)
               then (filtered_cols @ [colname], numeric_cols, cat_cols, datetime_cols,
                     singleton_cols)
             else if length (unique (vals series)) \<le> 1
               then (filtered_cols, numeric_cols, cat_cols, datetime_cols,
                     singleton_cols @ [colname])
             else if colname_dtype \<in> set categorical_dtypes
               then (filtered_cols, numeric_cols, cat_cols @ [colname], datetime_cols,
                     singleton_cols)
             else if colname_dtype \<in> set datetime_dtypes
                     \<or> kind colname_dtype \<in> set datetime_dtype_kinds
               then (filtered_cols, numeric_cols, cat_cols, datetime_cols @ [colname],
                     singleton_cols)
             else if is_numeric_dtype colname_dtype
               then (filtered_cols, numeric_cols @ [colname], cat_cols, datetime_cols,
                     singleton_cols)
             else (filtered_cols @ [colname], numeric_cols, cat_cols, datetime_cols,
                   singleton_cols)))"

definition first_loop ::
  "dataframe \<Rightarrow> dtype list \<Rightarrow> dtype list \<Rightarrow> char list \<Rightarrow> col_lists" where
  "first_loop df categorical_dtypes datetime_dtypes datetime_dtype_kinds =
     (let dtypes = zip (columns df) (map (\<lambda>c. dtype (getitem df c)) (columns df))
      in foldl (classify_column categorical_dtypes datetime_dtypes datetime_dtype_kinds df)
           ([], [], [], [], []) dtypes)"

text \<open>
  The condition of the third loop, \<open>(A or B) and C\<close>: \<open>B\<close> is evaluated, and may raise,
  only where \<open>A\<close> is false.
\<close>

definition is_timelike :: "dataframe \<Rightarrow> string \<Rightarrow> error + bool" where
  "is_timelike df colname =
     bind_result
       (if matches_datetime_pattern colname then Inr True
        else is_monotonically_increasing_numeric (df_getitem df colname))
       (\<lambda>a_or_b. Inr (a_or_b \<and> all_values_scalar (df_getitem df colname)))"

fun timelike_loop :: "dataframe \<Rightarrow> string list \<Rightarrow> string list \<Rightarrow> error + string list" where
  "timelike_loop df [] timelike_cols = Inr timelike_cols"
| "timelike_loop df (colname # rest) timelike_cols =
     bind_result (is_timelike df colname) (\<lambda>tagged.
       timelike_loop df rest (if tagged then timelike_cols @ [colname] else timelike_cols))"

text \<open>The dict that \<open>_classify_dtypes\<close> returns, a field for each key.\<close>

record dtype_groups =
  numeric :: "string list"
  categorical :: "string list"
  large_categorical :: "string list"
  datetime :: "string list"
  timelike :: "string list"
  singleton :: "string list"
  filtered :: "string list"

text \<open>
  \<open>_classify_dtypes\<close>. The names in \<open>cat_cols\<close> were filed from a series, so in the second
  loop \<open>df[colname]\<close> is the column of that name.
\<close>

definition classify_dtypes ::
  "dataframe \<Rightarrow> dtype list \<Rightarrow> dtype list \<Rightarrow> char list \<Rightarrow> nat \<Rightarrow> error + dtype_groups"
where
  "classify_dtypes df categorical_dtypes datetime_dtypes datetime_dtype_kinds
       categorical_size_threshold =
     (let (filtered_cols, numeric_cols, cat_cols, datetime_cols, singleton_cols) =
             first_loop df categorical_dtypes datetime_dtypes datetime_dtype_kinds;
          (small_cat_cols, large_cat_cols) =
             partition (\<lambda>colname. length (unique (vals (getitem df colname)))
                                     \<le> categorical_size_threshold) cat_cols
      in bind_result (timelike_loop df (columns df) []) (\<lambda>timelike_cols.
           Inr \<lparr>numeric = numeric_cols,
                categorical = small_cat_cols,
                large_categorical = large_cat_cols,
                datetime = datetime_cols,
                timelike = timelike_cols,
                singleton = singleton_cols,
                filtered = filtered_cols\<rparr>))"


text \<open>The call with the default arguments, as \<open>determine_charts\<close> makes it.\<close>

definition classify_dtypes_default :: "dataframe \<Rightarrow> error + dtype_groups" where
  "classify_dtypes_default df =
     classify_dtypes df CATEGORICAL_DTYPES DATETIME_DTYPES DATETIME_DTYPE_KINDS
       CATEGORICAL_LARGE_SIZE_THRESHOLD"

section \<open>Selection of candidate columns\<close>

text \<open>
  The cap \<open>k\<close> is \<open>None\<close> or a Python int. A list slice \<open>xs[:k]\<close> takes the first \<open>k\<close> items
  and, for a negative \<open>k\<close>, all but the last \<open>-k\<close>. \<open>itertools.islice(it, k)\<close> takes the first
  \<open>k\<close> items and raises \<open>ValueError\<close> unless \<open>0 <= k <= sys.maxsize\<close>; \<open>sys.maxsize\<close> is that
  of a 64-bit build.
\<close>

definition sys_maxsize :: int where
  "sys_maxsize = 2 ^ 63 - 1"

fun slice_to :: "'a list \<Rightarrow> int option \<Rightarrow> 'a list" where
  "slice_to xs None = xs"
| "slice_to xs (Some k) =
     (if k < 0 then take (nat (int (length xs) + k)) xs else take (nat k) xs)"

fun islice :: "'a list \<Rightarrow> int option \<Rightarrow> error + 'a list" where
  "islice xs None = Inr xs"
| "islice xs (Some k) =
     (if k < 0 \<or> sys_maxsize < k then Inl ValueError else Inr (take (nat k) xs))"

text \<open>\<open>itertools.pairwise\<close>: each item with its successor.\<close>

fun itertools_pairwise :: "'a list \<Rightarrow> ('a \<times> 'a) list" where
  "itertools_pairwise (a # b # xs) = (a, b) # itertools_pairwise (b # xs)"
| "itertools_pairwise _ = []"

text \<open>\<open>itertools.product\<close> of two and of three lists: the rightmost advances fastest.\<close>

fun product2 :: "'a list \<Rightarrow> 'b list \<Rightarrow> ('a \<times> 'b) list" where
  "product2 [] ys = []"
| "product2 (x # xs) ys = map (\<lambda>y. (x, y)) ys @ product2 xs ys"

fun product3 :: "'a list \<Rightarrow> 'b list \<Rightarrow> 'c list \<Rightarrow> ('a \<times> 'b \<times> 'c) list" where
  "product3 [] ys zs = []"
| "product3 (x # xs) ys zs = map (\<lambda>yz. (x, yz)) (product2 ys zs) @ product3 xs ys zs"

definition select_first_k_pairs :: "'a list \<Rightarrow> int option \<Rightarrow> error + ('a \<times> 'a) list" where
  "select_first_k_pairs colnames k = islice (itertools_pairwise colnames) k"

definition select_faceted_numeric_cols ::
  "'a list \<Rightarrow> 'b list \<Rightarrow> int option \<Rightarrow> error + ('a \<times> 'b) list" where
  "select_faceted_numeric_cols numeric_cols categorical_cols k =
     islice (product2 numeric_cols categorical_cols) k"

text \<open>
  In \<open>_select_time_series_cols\<close> the series slot holds a categorical column name or
  \<open>None\<close>, so the categorical names are wrapped in \<open>Some\<close>.
\<close>

definition select_time_series_cols ::
  "string list \<Rightarrow> string list \<Rightarrow> string list \<Rightarrow> int option
     \<Rightarrow> error + (string \<times> string \<times> string option) list" where
  "select_time_series_cols time_cols numeric_cols0 categorical_cols0 k =
     (let numeric_cols = filter (\<lambda>c. c \<notin> set time_cols) numeric_cols0;
          numeric_aggregates = [''count()''];
          categorical_cols =
            (if categorical_cols0 = [] then [None] else map Some categorical_cols0)
      in islice (product3 time_cols (numeric_cols @ numeric_aggregates) categorical_cols) k)"

section \<open>The orchestrator\<close>

datatype family =
    Histogram
  | CategoricalHistogram
  | Scatter
  | TimeSeriesLine
  | ValuePlot
  | Heatmap
  | FacetedDistribution

text \<open>What a section function of the helper module is handed for one chart.\<close>

datatype candidate =
    Col string
  | ColPair string string
  | ColTriple string string "string option"

record 'c chart_section =
  family :: family
  charts :: "'c list"

text \<open>
  The module \<open>_quickchart_helpers\<close> is a collaborator of \<open>determine_charts\<close>: its seven
  section functions are a parameter here, a function from the family, the data frame, the
  candidates and the registry to the charts of the section.
\<close>

type_synonym ('r, 'c) helpers = "family \<Rightarrow> dataframe \<Rightarrow> candidate list \<Rightarrow> 'r \<Rightarrow> 'c list"

definition make_section ::
  "('r, 'c) helpers \<Rightarrow> family \<Rightarrow> dataframe \<Rightarrow> candidate list \<Rightarrow> 'r \<Rightarrow> 'c chart_section" where
  "make_section helpers fam df cands dataframe_registry =
     \<lparr>family = fam, charts = helpers fam df cands dataframe_registry\<rparr>"

text \<open>\<open>if section.charts: chart_sections.append(section)\<close>.\<close>

definition append_section ::
  "'c chart_section list \<Rightarrow> 'c chart_section \<Rightarrow> 'c chart_section list" where
  "append_section chart_sections section =
     (if charts section \<noteq> [] then chart_sections @ [section] else chart_sections)"

text \<open>The seven blocks of \<open>determine_charts\<close>, in the order of the source.\<close>

definition histograms_block ::
  "('r, 'c) helpers \<Rightarrow> dataframe \<Rightarrow> 'r \<Rightarrow> int option \<Rightarrow> string list
     \<Rightarrow> 'c chart_section list \<Rightarrow> error + 'c chart_section list" where
  "histograms_block helpers df dataframe_registry max_chart_instances numeric_cols chart_sections =
     (if numeric_cols \<noteq> [] then
        Inr (append_section chart_sections
               (make_section helpers Histogram df
                  (map Col (slice_to numeric_cols max_chart_instances)) dataframe_registry))
      else Inr chart_sections)"

definition categorical_histograms_block ::
  "('r, 'c) helpers \<Rightarrow> dataframe \<Rightarrow> 'r \<Rightarrow> int option \<Rightarrow> string list
     \<Rightarrow> 'c chart_section list \<Rightarrow> error + 'c chart_section list" where
  "categorical_histograms_block helpers df dataframe_registry max_chart_instances categorical_cols
       chart_sections =
     (if categorical_cols \<noteq> [] then
        (let selected_categorical_cols = slice_to categorical_cols max_chart_instances
         in Inr (append_section chart_sections
                   (make_section helpers CategoricalHistogram df
                      (map Col selected_categorical_cols) dataframe_registry)))
      else Inr chart_sections)"

definition scatter_block ::
  "('r, 'c) helpers \<Rightarrow> dataframe \<Rightarrow> 'r \<Rightarrow> int option \<Rightarrow> string list
     \<Rightarrow> 'c chart_section list \<Rightarrow> error + 'c chart_section list" where
  "scatter_block helpers df dataframe_registry max_chart_instances numeric_cols chart_sections =
     (if length numeric_cols \<ge> 2 then
        bind_result (select_first_k_pairs numeric_cols max_chart_instances) (\<lambda>pairs.
          Inr (append_section chart_sections
                 (make_section helpers Scatter df
                    (map (\<lambda>(a, b). ColPair a b) pairs) dataframe_registry)))
      else Inr chart_sections)"

definition time_series_block ::
  "('r, 'c) helpers \<Rightarrow> dataframe \<Rightarrow> 'r \<Rightarrow> int option \<Rightarrow> string list \<Rightarrow> string list
     \<Rightarrow> string list \<Rightarrow> 'c chart_section list \<Rightarrow> error + 'c chart_section list" where
  "time_series_block helpers df dataframe_registry max_chart_instances time_cols numeric_cols
       categorical_cols chart_sections =
     (if time_cols \<noteq> [] then
        bind_result
          (select_time_series_cols time_cols numeric_cols categorical_cols max_chart_instances)
          (\<lambda>triples.
            Inr (append_section chart_sections
                   (make_section helpers TimeSeriesLine df
                      (map (\<lambda>(t, v, s). ColTriple t v s) triples) dataframe_registry)))
      else Inr chart_sections)"

definition value_plots_block ::
  "('r, 'c) helpers \<Rightarrow> dataframe \<Rightarrow> 'r \<Rightarrow> int option \<Rightarrow> string list
     \<Rightarrow> 'c chart_section list \<Rightarrow> error + 'c chart_section list" where
  "value_plots_block helpers df dataframe_registry max_chart_instances numeric_cols chart_sections =
     (if numeric_cols \<noteq> [] then
        Inr (append_section chart_sections
               (make_section helpers ValuePlot df
                  (map Col (slice_to numeric_cols max_chart_instances)) dataframe_registry))
      else Inr chart_sections)"

definition heatmaps_block ::
  "('r, 'c) helpers \<Rightarrow> dataframe \<Rightarrow> 'r \<Rightarrow> int option \<Rightarrow> string list
     \<Rightarrow> 'c chart_section list \<Rightarrow> error + 'c chart_section list" where
  "heatmaps_block helpers df dataframe_registry max_chart_instances categorical_cols
       chart_sections =
     (if length categorical_cols \<ge> 2 then
        bind_result (select_first_k_pairs categorical_cols max_chart_instances) (\<lambda>pairs.
          Inr (append_section chart_sections
                 (make_section helpers Heatmap df
                    (map (\<lambda>(a, b). ColPair a b) pairs) dataframe_registry)))
      else Inr chart_sections)"

definition faceted_distributions_block ::
  "('r, 'c) helpers \<Rightarrow> dataframe \<Rightarrow> 'r \<Rightarrow> int option \<Rightarrow> string list \<Rightarrow> string list
     \<Rightarrow> 'c chart_section list \<Rightarrow> error + 'c chart_section list" where
  "faceted_distributions_block helpers df dataframe_registry max_chart_instances numeric_cols
       categorical_cols chart_sections =
     (if categorical_cols \<noteq> [] \<and> numeric_cols \<noteq> [] then
        bind_result
          (select_faceted_numeric_cols numeric_cols categorical_cols max_chart_instances)
          (\<lambda>pairs.
            Inr (append_section chart_sections
                   (make_section helpers FacetedDistribution df
                      (map (\<lambda>(a, b). ColPair a b) pairs) dataframe_registry)))
      else Inr chart_sections)"

definition determine_charts ::
  "('r, 'c) helpers \<Rightarrow> dataframe \<Rightarrow> 'r \<Rightarrow> int option \<Rightarrow> error + 'c chart_section list" where
  "determine_charts helpers df dataframe_registry max_chart_instances =
     bind_result (classify_dtypes_default df) (\<lambda>dtype_groups.
       (let numeric_cols = numeric dtype_groups;
            categorical_cols = categorical dtype_groups;
            time_cols = datetime dtype_groups @ timelike dtype_groups
        in
          bind_result (histograms_block helpers df dataframe_registry max_chart_instances
                         numeric_cols []) (\<lambda>s1.
          bind_result (categorical_histograms_block helpers df dataframe_registry
                         max_chart_instances categorical_cols s1) (\<lambda>s2.
          bind_result (scatter_block helpers df dataframe_registry max_chart_instances
                         numeric_cols s2) (\<lambda>s3.
          bind_result (time_series_block helpers df dataframe_registry max_chart_instances
                         time_cols numeric_cols categorical_cols s3) (\<lambda>s4.
          bind_result (value_plots_block helpers df dataframe_registry max_chart_instances
                         numeric_cols s4) (\<lambda>s5.
          bind_result (heatmaps_block helpers df dataframe_registry max_chart_instances
                         categorical_cols s5) (\<lambda>s6.
          faceted_distributions_block helpers df dataframe_registry max_chart_instances
            numeric_cols categorical_cols s6))))))))"

section \<open>The entry point\<close>




section \<open>Example data frames and proof auxiliaries\<close>

text \<open>
  A numeric column that is not sorted, a small categorical column and a datetime column
  named \<open>date\<close>.
\<close>

definition example_df :: dataframe where
  "example_df =
     \<lparr>columns = [''x'', ''c'', ''date''],
      getitem = (\<lambda>colname.
        if colname = ''x'' then \<lparr>dtype = NpInt64, vals = [PNum 3, PNum 1, PNum 2]\<rparr>
        else if colname = ''c'' then \<lparr>dtype = NpObject, vals = [PStr ''a'', PStr ''b'', PStr ''a'']\<rparr>
        else \<lparr>dtype = NpDatetime64_ns, vals = [PTime 1, PTime 2, PTime 3]\<rparr>)\<rparr>"

text \<open>
  Two columns under the one label \<open>x\<close>, each a sorted integer column.
\<close>

definition repeated_name_df :: dataframe where
  "repeated_name_df =
     \<lparr>columns = [''x'', ''x''],
      getitem = (\<lambda>colname. \<lparr>dtype = NpInt64, vals = [PNum 1, PNum 2, PNum 3]\<rparr>)\<rparr>"





text \<open>The five lists of the first loop, side by side.\<close>

definition all_cols :: "col_lists \<Rightarrow> string list" where
  "all_cols st = (case st of (f, n, c, d, s) \<Rightarrow> f @ n @ c @ d @ s)"

text \<open>The condition of the third loop holds of a column, without an exception.\<close>

definition tagged_timelike :: "dataframe \<Rightarrow> string \<Rightarrow> bool" where
  "tagged_timelike df colname \<longleftrightarrow> is_timelike df colname = Inr True"

text \<open>The caps that \<open>itertools.islice\<close> accepts, and the cut it makes.\<close>

definition valid_stop :: "int option \<Rightarrow> bool" where
  "valid_stop k = (case k of None \<Rightarrow> True | Some n \<Rightarrow> 0 \<le> n \<and> n \<le> sys_maxsize)"

definition capped :: "int option \<Rightarrow> 'a list \<Rightarrow> 'a list" where
  "capped k xs = (case k of None \<Rightarrow> xs | Some n \<Rightarrow> take (nat n) xs)"

text \<open>
  What \<open>determine_charts\<close> hands to the section functions: it is run with the helper that
  builds, of the candidates it is handed, one chart that holds them all.
\<close>

definition handed_candidates :: "dataframe \<Rightarrow> int option \<Rightarrow> error + (candidate list) chart_section list" where
  "handed_candidates df max_chart_instances =
     determine_charts (\<lambda>fam df cands reg. [cands]) df () max_chart_instances"

text \<open>
  The sections that a helper builds from the candidates handed over, the empty ones
  dropped.
\<close>

definition build_from ::
  "('r, 'c) helpers \<Rightarrow> dataframe \<Rightarrow> 'r \<Rightarrow> (candidate list) chart_section list
     \<Rightarrow> 'c chart_section list" where
  "build_from h df reg hs =
     filter (\<lambda>s. charts s \<noteq> [])
       (map (\<lambda>s. \<lparr>family = family s, charts = h (family s) df (concat (charts s)) reg\<rparr>) hs)"

text \<open>
  The candidates that the block of a family computes, the families whose block runs,
  and the blocks as one loop over those families.
\<close>

fun family_candidates :: "dtype_groups \<Rightarrow> int option \<Rightarrow> family \<Rightarrow> error + candidate list" where
  "family_candidates g k Histogram = Inr (map Col (slice_to (numeric g) k))"
| "family_candidates g k CategoricalHistogram = Inr (map Col (slice_to (categorical g) k))"
| "family_candidates g k Scatter =
     bind_result (select_first_k_pairs (numeric g) k) (\<lambda>ps. Inr (map (\<lambda>(a, b). ColPair a b) ps))"
| "family_candidates g k TimeSeriesLine =
     bind_result (select_time_series_cols (datetime g @ timelike g) (numeric g) (categorical g) k)
       (\<lambda>ts. Inr (map (\<lambda>(t, v, s). ColTriple t v s) ts))"
| "family_candidates g k ValuePlot = Inr (map Col (slice_to (numeric g) k))"
| "family_candidates g k Heatmap =
     bind_result (select_first_k_pairs (categorical g) k) (\<lambda>ps. Inr (map (\<lambda>(a, b). ColPair a b) ps))"
| "family_candidates g k FacetedDistribution =
     bind_result (select_faceted_numeric_cols (numeric g) (categorical g) k)
       (\<lambda>ps. Inr (map (\<lambda>(a, b). ColPair a b) ps))"

definition planned :: "dtype_groups \<Rightarrow> family list" where
  "planned g =
     (if numeric g \<noteq> [] then [Histogram] else [])
     @ (if categorical g \<noteq> [] then [CategoricalHistogram] else [])
     @ (if length (numeric g) \<ge> 2 then [Scatter] else [])
     @ (if datetime g @ timelike g \<noteq> [] then [TimeSeriesLine] else [])
     @ (if numeric g \<noteq> [] then [ValuePlot] else [])
     @ (if length (categorical g) \<ge> 2 then [Heatmap] else [])
     @ (if categorical g \<noteq> [] \<and> numeric g \<noteq> [] then [FacetedDistribution] else [])"

definition run_family ::
  "('r, 'c) helpers \<Rightarrow> dataframe \<Rightarrow> 'r \<Rightarrow> dtype_groups \<Rightarrow> int option \<Rightarrow> family
     \<Rightarrow> 'c chart_section list \<Rightarrow> error + 'c chart_section list" where
  "run_family h df reg g k fam secs =
     bind_result (family_candidates g k fam)
       (\<lambda>cands. Inr (append_section secs (make_section h fam df cands reg)))"

fun run_families ::
  "('r, 'c) helpers \<Rightarrow> dataframe \<Rightarrow> 'r \<Rightarrow> dtype_groups \<Rightarrow> int option \<Rightarrow> family list
     \<Rightarrow> 'c chart_section list \<Rightarrow> error + 'c chart_section list" where
  "run_families h df reg g k [] secs = Inr secs"
| "run_families h df reg g k (fam # fams) secs =
     bind_result (run_family h df reg g k fam secs) (run_families h df reg g k fams)"






section \<open>The classifier partitions the columns\<close>

lemma bind_result_Inr:
  "bind_result r f = Inr y \<longleftrightarrow> (\<exists>x. r = Inr x \<and> f x = Inr y)"
  by (cases r) (auto simp: bind_result_def)

lemma bind_result_simps [simp]:
  "bind_result (Inr x) f = f x" "bind_result (Inl e) f = Inl e"
  by (simp_all add: bind_result_def)

lemma bind_result_assoc:
  "bind_result (bind_result r f) g = bind_result r (\<lambda>x. bind_result (f x) g)"
  by (cases r) simp_all

lemma classify_column_set:
  "set (all_cols (classify_column cd dd dk df st (c, t))) = insert c (set (all_cols st))"
  by (cases st) (auto simp: classify_column_def all_cols_def split: frame_item.splits)

lemma classify_column_distinct:
  "distinct (all_cols st) \<Longrightarrow> c \<notin> set (all_cols st) \<Longrightarrow>
   distinct (all_cols (classify_column cd dd dk df st (c, t)))"
  by (cases st) (auto simp: classify_column_def all_cols_def split: frame_item.splits)

lemma foldl_classify_set:
  "set (all_cols (foldl (classify_column cd dd dk df) st xs)) = set (all_cols st) \<union> fst ` set xs"
proof (induction xs arbitrary: st)
  case Nil
  show ?case by simp
next
  case (Cons x xs)
  obtain c t where x: "x = (c, t)" by (cases x)
  show ?case using Cons.IH [of "classify_column cd dd dk df st (c, t)"]
    by (simp add: x classify_column_set)
qed

lemma foldl_classify_distinct:
  "distinct (all_cols st) \<Longrightarrow> distinct (map fst xs) \<Longrightarrow> set (all_cols st) \<inter> fst ` set xs = {} \<Longrightarrow>
   distinct (all_cols (foldl (classify_column cd dd dk df) st xs))"
proof (induction xs arbitrary: st)
  case Nil
  then show ?case by simp
next
  case (Cons x xs)
  obtain c t where x: "x = (c, t)" by (cases x)
  have d: "distinct (all_cols (classify_column cd dd dk df st (c, t)))"
    using Cons.prems by (intro classify_column_distinct) (auto simp: x)
  have i: "set (all_cols (classify_column cd dd dk df st (c, t))) \<inter> fst ` set xs = {}"
    using Cons.prems by (auto simp: x classify_column_set)
  show ?case using Cons.IH [OF d _ i] Cons.prems by (simp add: x)
qed

lemma zip_dtypes_fst: "map fst (zip xs (map f xs)) = xs"
  by (induction xs) auto

lemma first_loop_set: "set (all_cols (first_loop df cd dd dk)) = set (columns df)"
proof -
  have "set (all_cols ([], [], [], [], [])) = {}" by (simp add: all_cols_def)
  then have "set (all_cols (first_loop df cd dd dk))
        = fst ` set (zip (columns df) (map (\<lambda>c. dtype (getitem df c)) (columns df)))"
    unfolding first_loop_def Let_def by (simp only: foldl_classify_set Un_empty_left)
  also have "\<dots> = set (map fst (zip (columns df) (map (\<lambda>c. dtype (getitem df c)) (columns df))))"
    by (simp only: set_map)
  also have "\<dots> = set (columns df)" by (simp only: zip_dtypes_fst)
  finally show ?thesis .
qed

lemma first_loop_distinct:
  assumes "distinct (columns df)"
  shows "distinct (all_cols (first_loop df cd dd dk))"
  unfolding first_loop_def Let_def
  using assms by (intro foldl_classify_distinct) (simp_all add: all_cols_def zip_dtypes_fst)

lemma timelike_loop_result:
  "timelike_loop df cols acc = Inr res \<Longrightarrow> res = acc @ filter (tagged_timelike df) cols"
proof (induction cols arbitrary: acc)
  case Nil
  then show ?case by simp
next
  case (Cons c cols)
  from Cons.prems obtain b where b: "is_timelike df c = Inr b"
    and r: "timelike_loop df cols (if b then acc @ [c] else acc) = Inr res"
    by (auto simp: bind_result_Inr)
  show ?case using Cons.IH [OF r] b by (cases b) (simp_all add: tagged_timelike_def)
qed

lemma timelike_loop_returns:
  "\<forall>c \<in> set cols. \<exists>b. is_timelike df c = Inr b \<Longrightarrow> \<exists>res. timelike_loop df cols acc = Inr res"
proof (induction cols arbitrary: acc)
  case Nil
  show ?case by simp
next
  case (Cons c cols)
  then obtain b where b: "is_timelike df c = Inr b" by auto
  show ?case using Cons.IH [of "if b then acc @ [c] else acc"] Cons.prems by (simp add: b)
qed

lemma count_list_distinct: "distinct xs \<Longrightarrow> count_list xs c \<le> 1"
  by (induction xs) auto

lemma df_getitem_distinct:
  assumes "distinct (columns df)"
  shows "df_getitem df c = ASeries (getitem df c)"
  using count_list_distinct [OF assms, of c] by (simp add: df_getitem_def)

lemmas classify_defs = classify_dtypes_default_def classify_dtypes_def first_loop_def
  classify_column_def df_getitem_def is_timelike_def
  CATEGORICAL_DTYPES_def DATETIME_DTYPES_def DATETIME_DTYPE_KINDS_def
  CATEGORICAL_LARGE_SIZE_THRESHOLD_def matches_datetime_pattern_def
  is_monotonically_increasing_numeric_def all_values_scalar_def DATETIME_COLNAME_PATTERNS_def
  DATETIME_COLNAMES_def lower_def lower_char_def startswith_def endswith_def

lemma ex_wf: "wf_dataframe example_df"
  by (simp add: wf_dataframe_def example_df_def)

lemma ex_classify: "classify_dtypes_default example_df =
   Inr \<lparr>numeric = [''x''], categorical = [''c''], large_categorical = [], datetime = [''date''],
        timelike = [''date''], singleton = [], filtered = []\<rparr>"
  by (simp add: classify_defs example_df_def)

lemma repeated_name_classify: "classify_dtypes_default repeated_name_df = Inl AttributeError"
  by (simp add: classify_defs repeated_name_df_def)

lemma classify_dtypes_Inr:
  assumes "classify_dtypes df cd dd dk th = Inr g"
    and "first_loop df cd dd dk = (f, n, c, d, s)"
  shows "g = \<lparr>numeric = n,
              categorical = filter (\<lambda>colname. length (unique (vals (getitem df colname))) \<le> th) c,
              large_categorical =
                filter (Not \<circ> (\<lambda>colname. length (unique (vals (getitem df colname))) \<le> th)) c,
              datetime = d,
              timelike = filter (tagged_timelike df) (columns df),
              singleton = s,
              filtered = f\<rparr>"
proof -
  from assms obtain t where t: "timelike_loop df (columns df) [] = Inr t"
    and g: "g = \<lparr>numeric = n,
              categorical = filter (\<lambda>colname. length (unique (vals (getitem df colname))) \<le> th) c,
              large_categorical =
                filter (Not \<circ> (\<lambda>colname. length (unique (vals (getitem df colname))) \<le> th)) c,
              datetime = d, timelike = t, singleton = s, filtered = f\<rparr>"
    by (auto simp: classify_dtypes_def bind_result_Inr)
  show ?thesis using timelike_loop_result [OF t] g by simp
qed

lemma is_timelike_distinct:
  assumes "distinct (columns df)"
  shows "is_timelike df c =
     Inr ((matches_datetime_pattern c
           \<or> (is_np_dtype (dtype (getitem df c)) \<and> issubdtype_number (dtype (getitem df c))
              \<and> list_all (\<lambda>(a, b). np_le a b)
                   (zip (butlast (vals (getitem df c))) (tl (vals (getitem df c))))))
          \<and> \<not> list_ex is_non_scalar (vals (getitem df c)))"
  by (simp add: is_timelike_def df_getitem_distinct [OF assms]
        is_monotonically_increasing_numeric_def all_values_scalar_def)

lemma classify_dtypes_returns:
  assumes "distinct (columns df)"
  shows "\<exists>g. classify_dtypes df cd dd dk th = Inr g"
proof -
  have "\<forall>c \<in> set (columns df). \<exists>b. is_timelike df c = Inr b"
    by (simp add: is_timelike_distinct [OF assms])
  from timelike_loop_returns [OF this, of "[]"]
  obtain t where "timelike_loop df (columns df) [] = Inr t" by blast
  then show ?thesis by (simp add: classify_dtypes_def split: prod.splits)
qed

lemma classify_partition:
  fixes cd dd dk th
  assumes "classify_dtypes df cd dd dk th = Inr g"
  shows "distinct (columns df) \<Longrightarrow>
           distinct (numeric g @ categorical g @ large_categorical g @ datetime g @ singleton g
                     @ filtered g)"
    and "set (numeric g @ categorical g @ large_categorical g @ datetime g @ singleton g
              @ filtered g) = set (columns df)"
    and "set (timelike g) \<subseteq> set (columns df)"
proof -
  obtain f n c d s where st: "first_loop df cd dd dk = (f, n, c, d, s)"
    by (cases "first_loop df cd dd dk")
  note g = classify_dtypes_Inr [OF assms st]
  have S: "set (f @ n @ c @ d @ s) = set (columns df)"
    using first_loop_set [of df cd dd dk] by (simp add: st all_cols_def)
  show "set (numeric g @ categorical g @ large_categorical g @ datetime g @ singleton g
              @ filtered g) = set (columns df)"
    using S by (auto simp: g)
  show "set (timelike g) \<subseteq> set (columns df)"
    by (auto simp: g)
  assume "distinct (columns df)"
  then have "distinct (f @ n @ c @ d @ s)"
    using first_loop_distinct [of df cd dd dk] by (simp add: st all_cols_def)
  then show "distinct (numeric g @ categorical g @ large_categorical g @ datetime g @ singleton g
                     @ filtered g)"
    by (auto simp: g)
qed

lemma exactly_one:
  assumes "distinct (concat gs)" "c \<in> set (concat gs)"
  shows "length (filter (\<lambda>grp. c \<in> set grp) gs) = 1"
  using assms
proof (induction gs)
  case Nil then show ?case by simp
next
  case (Cons g gs)
  show ?case
  proof (cases "c \<in> set g")
    case True
    then have "\<forall>grp \<in> set gs. c \<notin> set grp" using Cons.prems(1) by auto
    then have "filter (\<lambda>grp. c \<in> set grp) gs = []" by (simp add: filter_empty_conv)
    with True show ?thesis by simp
  next
    case False
    then show ?thesis using Cons by auto
  qed
qed

text \<open>
  Claim C1: on a well-formed data frame the classifier returns, the six primary lists
  (numeric, small categorical, large categorical, datetime, singleton, filtered) have
  no name in common and none twice, together they hold exactly the columns of the data
  frame, and every column is in exactly one of them. The timelike list is a further
  list of columns, computed apart from the six.
\<close>

theorem classify_dtypes_partition:
  fixes cd dd dk th
  assumes "wf_dataframe df"
  shows "\<exists>g. classify_dtypes df cd dd dk th = Inr g
           \<and> (let primary = [numeric g, categorical g, large_categorical g, datetime g,
                             singleton g, filtered g]
              in distinct (concat primary)
                 \<and> set (concat primary) = set (columns df)
                 \<and> (\<forall>c \<in> set (columns df). length (filter (\<lambda>grp. c \<in> set grp) primary) = 1)
                 \<and> set (timelike g) \<subseteq> set (columns df))"
proof -
  have dist: "distinct (columns df)" using assms by (simp add: wf_dataframe_def)
  obtain g where g: "classify_dtypes df cd dd dk th = Inr g"
    using classify_dtypes_returns [OF dist] by blast
  define primary where
    "primary = [numeric g, categorical g, large_categorical g, datetime g, singleton g, filtered g]"
  have D: "distinct (concat primary)"
    using classify_partition(1) [OF g dist] by (simp add: primary_def)
  have S: "set (concat primary) = set (columns df)"
    using classify_partition(2) [OF g] by (simp add: primary_def)
  have T: "set (timelike g) \<subseteq> set (columns df)"
    by (rule classify_partition(3) [OF g])
  have E: "\<forall>c \<in> set (columns df). length (filter (\<lambda>grp. c \<in> set grp) primary) = 1"
    using exactly_one [OF D] S by blast
  show ?thesis using g D S E T unfolding Let_def primary_def by blast
qed

theorem classify_dtypes_partition_witness:
  "wf_dataframe example_df
   \<and> (\<exists>g. classify_dtypes example_df CATEGORICAL_DTYPES DATETIME_DTYPES DATETIME_DTYPE_KINDS
             CATEGORICAL_LARGE_SIZE_THRESHOLD = Inr g
           \<and> (let primary = [numeric g, categorical g, large_categorical g, datetime g,
                             singleton g, filtered g]
              in distinct (concat primary)
                 \<and> set (concat primary) = set (columns example_df)
                 \<and> (\<forall>c \<in> set (columns example_df).
                       length (filter (\<lambda>grp. c \<in> set grp) primary) = 1)
                 \<and> set (timelike g) \<subseteq> set (columns example_df)))"
  by (rule conjI [OF ex_wf classify_dtypes_partition [OF ex_wf]])

text \<open>In the example the column \<open>date\<close> is in the datetime list and in the timelike list.\<close>

lemma timelike_overlaps_datetime:
  "\<exists>g. classify_dtypes_default example_df = Inr g
        \<and> ''date'' \<in> set (datetime g) \<and> ''date'' \<in> set (timelike g)"
  by (simp add: ex_classify)

section \<open>The timelike tag\<close>

lemma startswith_prefix: "startswith s p \<longleftrightarrow> prefix p s"
proof
  assume "startswith s p"
  then have "take (length p) s = p" by (simp add: startswith_def)
  then show "prefix p s" by (metis take_is_prefix)
next
  assume "prefix p s"
  then show "startswith s p" by (auto simp: prefix_def startswith_def)
qed

lemma endswith_suffix: "endswith s p \<longleftrightarrow> suffix p s"
proof
  assume "endswith s p"
  then have "drop (length s - length p) s = p" by (simp add: endswith_def)
  then show "suffix p s" by (metis suffix_drop)
next
  assume "suffix p s"
  then show "endswith s p" by (auto simp: suffix_def endswith_def)
qed

lemma adjacent_pairs:
  "list_all (\<lambda>(a, b). P a b) (zip (butlast xs) (tl xs))
     \<longleftrightarrow> (\<forall>i. Suc i < length xs \<longrightarrow> P (xs ! i) (xs ! Suc i))"
proof -
  have "list_all (\<lambda>(a, b). P a b) (zip (butlast xs) (tl xs)) \<longleftrightarrow>
        (\<forall>i < length xs - 1. P (butlast xs ! i) (tl xs ! i))"
    by (simp add: list_all_length)
  also have "\<dots> \<longleftrightarrow> (\<forall>i. Suc i < length xs \<longrightarrow> P (xs ! i) (xs ! Suc i))"
    by (auto simp: nth_butlast nth_tl)
  finally show ?thesis .
qed

lemma no_non_scalar_iff:
  "\<not> list_ex is_non_scalar vs \<longleftrightarrow> (\<forall>v \<in> set vs. \<forall>xs. v \<noteq> PList xs \<and> v \<noteq> PTuple xs)"
proof -
  have "is_non_scalar v \<longleftrightarrow> (\<exists>xs. v = PList xs \<or> v = PTuple xs)" for v
    by (cases v) auto
  then show ?thesis by (auto simp: list_ex_iff)
qed

lemma matches_iff:
  "matches_datetime_pattern colname \<longleftrightarrow>
     (\<exists>p \<in> {''date'', ''datetime'', ''time'', ''timestamp''}.
         prefix p (lower colname) \<or> suffix p (lower colname))
     \<or> lower colname \<in> {''dt'', ''t'', ''ts'', ''year''}"
  by (simp add: matches_datetime_pattern_def Let_def DATETIME_COLNAME_PATTERNS_def
        DATETIME_COLNAMES_def startswith_prefix endswith_suffix)

lemma numeric_storage: "is_np_dtype d \<and> issubdtype_number d \<longleftrightarrow> d \<in> {NpInt64, NpFloat64}"
  by (cases d) auto

lemma tagged_timelike_distinct:
  assumes "distinct (columns df)"
  shows "tagged_timelike df colname \<longleftrightarrow>
     (((\<exists>p \<in> {''date'', ''datetime'', ''time'', ''timestamp''}.
          prefix p (lower colname) \<or> suffix p (lower colname))
       \<or> lower colname \<in> {''dt'', ''t'', ''ts'', ''year''})
      \<or> (dtype (getitem df colname) \<in> {NpInt64, NpFloat64}
          \<and> (\<forall>i. Suc i < length (vals (getitem df colname)) \<longrightarrow>
                 np_le (vals (getitem df colname) ! i) (vals (getitem df colname) ! Suc i))))
     \<and> (\<forall>v \<in> set (vals (getitem df colname)). \<forall>xs. v \<noteq> PList xs \<and> v \<noteq> PTuple xs)"
  unfolding tagged_timelike_def is_timelike_distinct [OF assms] sum.inject
    matches_iff [symmetric] no_non_scalar_iff [symmetric]
  using numeric_storage [of "dtype (getitem df colname)"]
    adjacent_pairs [of np_le "vals (getitem df colname)"]
  by auto

text \<open>
  Claim C3, for a data frame whose column labels are distinct: the classifier returns,
  and a column is tagged timelike if and only if it is a column of the data frame, its
  lower-cased name starts or ends with \<open>date\<close>, \<open>datetime\<close>, \<open>time\<close> or \<open>timestamp\<close> or is one
  of \<open>dt\<close>, \<open>t\<close>, \<open>ts\<close>, \<open>year\<close>, or else its dtype is a numpy number dtype and each value is
  at most the next one, and in both cases no value is a list or a tuple.
\<close>

theorem timelike_iff:
  fixes cd dd dk th
  assumes "distinct (columns df)"
  shows "\<exists>g. classify_dtypes df cd dd dk th = Inr g \<and>
    (\<forall>colname. colname \<in> set (timelike g) \<longleftrightarrow>
       colname \<in> set (columns df) \<and>
       (((\<exists>p \<in> {''date'', ''datetime'', ''time'', ''timestamp''}.
            prefix p (lower colname) \<or> suffix p (lower colname))
         \<or> lower colname \<in> {''dt'', ''t'', ''ts'', ''year''})
        \<or> (dtype (getitem df colname) \<in> {NpInt64, NpFloat64}
            \<and> (\<forall>i. Suc i < length (vals (getitem df colname)) \<longrightarrow>
                   np_le (vals (getitem df colname) ! i) (vals (getitem df colname) ! Suc i))))
       \<and> (\<forall>v \<in> set (vals (getitem df colname)). \<forall>xs. v \<noteq> PList xs \<and> v \<noteq> PTuple xs))"
proof -
  obtain g where g: "classify_dtypes df cd dd dk th = Inr g"
    using classify_dtypes_returns [OF assms] by blast
  obtain f n c d s where st: "first_loop df cd dd dk = (f, n, c, d, s)"
    by (cases "first_loop df cd dd dk")
  have "timelike g = filter (tagged_timelike df) (columns df)"
    using classify_dtypes_Inr [OF g st] by simp
  then have "colname \<in> set (timelike g)
               \<longleftrightarrow> colname \<in> set (columns df) \<and> tagged_timelike df colname" for colname
    by simp
  then show ?thesis using g unfolding tagged_timelike_distinct [OF assms] by blast
qed

theorem timelike_iff_witness:
  "distinct (columns example_df)
   \<and> (\<exists>g. classify_dtypes_default example_df = Inr g
          \<and> ''date'' \<in> set (timelike g) \<and> ''x'' \<notin> set (timelike g))"
proof -
  have d: "distinct (columns example_df)" by (simp add: example_df_def)
  from timelike_iff [OF d, of CATEGORICAL_DTYPES DATETIME_DTYPES DATETIME_DTYPE_KINDS
      CATEGORICAL_LARGE_SIZE_THRESHOLD]
  obtain g where g: "classify_dtypes_default example_df = Inr g"
    and iff: "\<And>colname. colname \<in> set (timelike g) \<longleftrightarrow>
       colname \<in> set (columns example_df) \<and>
       (((\<exists>p \<in> {''date'', ''datetime'', ''time'', ''timestamp''}.
            prefix p (lower colname) \<or> suffix p (lower colname))
         \<or> lower colname \<in> {''dt'', ''t'', ''ts'', ''year''})
        \<or> (dtype (getitem example_df colname) \<in> {NpInt64, NpFloat64}
            \<and> (\<forall>i. Suc i < length (vals (getitem example_df colname)) \<longrightarrow>
                   np_le (vals (getitem example_df colname) ! i)
                     (vals (getitem example_df colname) ! Suc i))))
       \<and> (\<forall>v \<in> set (vals (getitem example_df colname)). \<forall>xs. v \<noteq> PList xs \<and> v \<noteq> PTuple xs)"
    unfolding classify_dtypes_default_def by blast
  have "''date'' \<in> set (timelike g)"
    unfolding iff by (simp add: example_df_def lower_def lower_char_def)
  moreover have "''x'' \<notin> set (timelike g)"
    unfolding iff
    by (simp add: example_df_def lower_def lower_char_def suffix_to_prefix less_Suc_eq)
  ultimately show ?thesis using d g by blast
qed

text \<open>
  With a label that occurs twice and matches no pattern the third loop raises, though
  both columns are sorted integer columns.
\<close>

theorem timelike_repeated_name:
  "columns repeated_name_df = [''x'', ''x'']
   \<and> dtype (getitem repeated_name_df ''x'') = NpInt64
   \<and> vals (getitem repeated_name_df ''x'') = [PNum 1, PNum 2, PNum 3]
   \<and> np_le (PNum 1) (PNum 2) \<and> np_le (PNum 2) (PNum 3)
   \<and> classify_dtypes_default repeated_name_df = Inl AttributeError"
  by (simp add: repeated_name_classify) (simp add: repeated_name_df_def)

section \<open>The selectors\<close>

lemma itertools_pairwise_zip: "itertools_pairwise xs = zip xs (tl xs)"
  by (induction xs rule: itertools_pairwise.induct) auto

lemma product2_product: "product2 xs ys = List.product xs ys"
  by (induction xs) auto

lemma product2_comprehension: "product2 xs ys = [(x, y). x \<leftarrow> xs, y \<leftarrow> ys]"
  by (induction xs) auto

lemma product3_comprehension: "product3 xs ys zs = [(x, y, z). x \<leftarrow> xs, y \<leftarrow> ys, z \<leftarrow> zs]"
  by (induction xs) (auto simp: product2_comprehension map_concat comp_def)


lemma islice_invalid: "\<not> valid_stop k \<Longrightarrow> islice xs k = Inl ValueError"
  by (cases k) (auto simp: valid_stop_def)

text \<open>
  Claim C4, for a cap that is absent or lies between 0 and \<open>sys.maxsize\<close>: the pair
  selector returns the pairs of neighbours of the input, in input order, cut to the first
  \<open>k\<close>; the pair at index \<open>i\<close> is the input's items \<open>i\<close> and \<open>i + 1\<close>.
\<close>

theorem select_first_k_pairs_sliding:
  assumes "case k of None \<Rightarrow> True | Some n \<Rightarrow> 0 \<le> n \<and> n \<le> sys_maxsize"
  shows "\<exists>ps. select_first_k_pairs xs k = Inr ps
            \<and> ps = (case k of None \<Rightarrow> zip xs (tl xs) | Some n \<Rightarrow> take (nat n) (zip xs (tl xs)))
            \<and> length ps = (case k of None \<Rightarrow> length xs - 1 | Some n \<Rightarrow> min (nat n) (length xs - 1))
            \<and> (\<forall>i < length ps. ps ! i = (xs ! i, xs ! Suc i))"
  using assms
  by (cases k) (auto simp: select_first_k_pairs_def itertools_pairwise_zip nth_tl)

theorem select_first_k_pairs_sliding_witness:
  "(0::int) \<le> 2 \<and> 2 \<le> sys_maxsize
   \<and> select_first_k_pairs [''a'', ''b'', ''c'', ''d''] (Some 2) = Inr [(''a'', ''b''), (''b'', ''c'')]"
  using select_first_k_pairs_sliding [of "Some 2" "[''a'', ''b'', ''c'', ''d'']"]
  by (simp add: sys_maxsize_def)

text \<open>With a negative cap, or one above \<open>sys.maxsize\<close>, the selector raises.\<close>

theorem select_first_k_pairs_invalid_cap:
  "select_first_k_pairs [''a'', ''b'', ''c'', ''d''] (Some (- 1)) = Inl ValueError
   \<and> select_first_k_pairs [''a'', ''b'', ''c'', ''d''] (Some 9223372036854775808) = Inl ValueError"
  by (simp add: select_first_k_pairs_def sys_maxsize_def)

text \<open>
  Claim C5, for a cap that is absent or lies between 0 and \<open>sys.maxsize\<close>: the faceted
  selector returns the cross product of the numeric and the categorical names, the
  numeric index outside and the categorical index inside, cut to the first \<open>k\<close>.
\<close>

theorem select_faceted_numeric_cols_product:
  assumes "case k of None \<Rightarrow> True | Some n \<Rightarrow> 0 \<le> n \<and> n \<le> sys_maxsize"
  shows "\<exists>ps. select_faceted_numeric_cols numeric_cols categorical_cols k = Inr ps
            \<and> ps = (case k of None \<Rightarrow> [(n, c). n \<leftarrow> numeric_cols, c \<leftarrow> categorical_cols]
                             | Some m \<Rightarrow> take (nat m) [(n, c). n \<leftarrow> numeric_cols, c \<leftarrow> categorical_cols])
            \<and> length ps = (case k of None \<Rightarrow> length numeric_cols * length categorical_cols
                             | Some m \<Rightarrow> min (nat m) (length numeric_cols * length categorical_cols))
            \<and> (\<forall>i < length ps. ps ! i = (numeric_cols ! (i div length categorical_cols),
                                         categorical_cols ! (i mod length categorical_cols)))"
proof -
  have c: "[(n, c). n \<leftarrow> numeric_cols, c \<leftarrow> categorical_cols] = List.product numeric_cols categorical_cols"
    by (simp add: product2_comprehension [symmetric] product2_product)
  show ?thesis using assms
    by (cases k) (auto simp: select_faceted_numeric_cols_def c product2_product List.product_nth)
qed

theorem select_faceted_numeric_cols_product_witness:
  "select_faceted_numeric_cols [''n1'', ''n2''] [''c1'', ''c2''] None
     = Inr [(''n1'', ''c1''), (''n1'', ''c2''), (''n2'', ''c1''), (''n2'', ''c2'')]
   \<and> (0::int) \<le> 3 \<and> 3 \<le> sys_maxsize
   \<and> select_faceted_numeric_cols [''n1'', ''n2''] [''c1'', ''c2''] (Some 3)
     = Inr [(''n1'', ''c1''), (''n1'', ''c2''), (''n2'', ''c1'')]"
  using select_faceted_numeric_cols_product [of None "[''n1'', ''n2'']" "[''c1'', ''c2'']"]
    select_faceted_numeric_cols_product [of "Some 3" "[''n1'', ''n2'']" "[''c1'', ''c2'']"]
  by (simp add: sys_maxsize_def)

text \<open>With a negative cap, or one above \<open>sys.maxsize\<close>, the selector raises.\<close>

theorem select_faceted_numeric_cols_invalid_cap:
  "select_faceted_numeric_cols [''n1'', ''n2''] [''c1'', ''c2''] (Some (- 1)) = Inl ValueError
   \<and> select_faceted_numeric_cols [''n1'', ''n2''] [''c1'', ''c2''] (Some 9223372036854775808)
       = Inl ValueError"
  by (simp add: select_faceted_numeric_cols_def sys_maxsize_def)

text \<open>
  Claim C6, for a cap that is absent or lies between 0 and \<open>sys.maxsize\<close>: the time-series
  selector returns the first \<open>k\<close> triples of the cross product of the time columns, the
  numeric columns that are not time columns followed by \<open>count()\<close>, and the categorical
  columns, or \<open>None\<close> alone when there is no categorical column.
\<close>

theorem select_time_series_cols_product:
  assumes "case k of None \<Rightarrow> True | Some n \<Rightarrow> 0 \<le> n \<and> n \<le> sys_maxsize"
  shows "select_time_series_cols time_cols numeric_cols categorical_cols k =
           Inr ((case k of None \<Rightarrow> (\<lambda>xs. xs) | Some n \<Rightarrow> take (nat n))
                  [(t, v, s). t \<leftarrow> time_cols,
                              v \<leftarrow> [c \<leftarrow> numeric_cols. c \<notin> set time_cols] @ [''count()''],
                              s \<leftarrow> (if categorical_cols = [] then [None] else map Some categorical_cols)])"
  using assms
  by (cases k) (simp_all add: select_time_series_cols_def Let_def product3_comprehension)

theorem select_time_series_cols_product_witness:
  "(0::int) \<le> 5 \<and> 5 \<le> sys_maxsize
   \<and> select_time_series_cols [''t''] [''t'', ''x''] [] (Some 5)
     = Inr [(''t'', ''x'', None), (''t'', ''count()'', None)]"
  using select_time_series_cols_product [of "Some 5" "[''t'']" "[''t'', ''x'']" "[]"]
  by (simp add: sys_maxsize_def)

text \<open>With a negative cap, or one above \<open>sys.maxsize\<close>, the selector raises.\<close>

theorem select_time_series_cols_invalid_cap:
  "select_time_series_cols [''t''] [''t'', ''x''] [] (Some (- 1)) = Inl ValueError
   \<and> select_time_series_cols [''t''] [''t'', ''x''] [] (Some 18446744073709551616) = Inl ValueError"
  by (simp add: select_time_series_cols_def sys_maxsize_def)

section \<open>The orchestrator as a pass over the planned families\<close>

lemma run_families_append:
  "run_families h df reg g k (xs @ ys) secs =
     bind_result (run_families h df reg g k xs secs) (run_families h df reg g k ys)"
proof (induction xs arbitrary: secs)
  case Nil
  show ?case by simp
next
  case (Cons x xs)
  have "run_families h df reg g k (xs @ ys) =
          (\<lambda>s. bind_result (run_families h df reg g k xs s) (run_families h df reg g k ys))"
    by (rule ext) (rule Cons.IH)
  then show ?case by (simp add: bind_result_assoc)
qed

lemma run_families_if:
  "run_families h df reg g k (if b then [fam] else []) secs =
     (if b then run_family h df reg g k fam secs else Inr secs)"
proof (cases b)
  case True
  then show ?thesis by (cases "run_family h df reg g k fam secs") simp_all
next
  case False
  then show ?thesis by simp
qed

lemma histograms_block_run:
  "histograms_block h df reg k (numeric g) secs =
     (if numeric g \<noteq> [] then run_family h df reg g k Histogram secs else Inr secs)"
  by (simp add: histograms_block_def run_family_def)

lemma categorical_histograms_block_run:
  "categorical_histograms_block h df reg k (categorical g) secs =
     (if categorical g \<noteq> [] then run_family h df reg g k CategoricalHistogram secs else Inr secs)"
  by (simp add: categorical_histograms_block_def run_family_def)

lemma scatter_block_run:
  "scatter_block h df reg k (numeric g) secs =
     (if length (numeric g) \<ge> 2 then run_family h df reg g k Scatter secs else Inr secs)"
  by (simp add: scatter_block_def run_family_def bind_result_assoc)

lemma time_series_block_run:
  "time_series_block h df reg k (datetime g @ timelike g) (numeric g) (categorical g) secs =
     (if datetime g @ timelike g \<noteq> [] then run_family h df reg g k TimeSeriesLine secs else Inr secs)"
  by (simp add: time_series_block_def run_family_def bind_result_assoc)

lemma value_plots_block_run:
  "value_plots_block h df reg k (numeric g) secs =
     (if numeric g \<noteq> [] then run_family h df reg g k ValuePlot secs else Inr secs)"
  by (simp add: value_plots_block_def run_family_def)

lemma heatmaps_block_run:
  "heatmaps_block h df reg k (categorical g) secs =
     (if length (categorical g) \<ge> 2 then run_family h df reg g k Heatmap secs else Inr secs)"
  by (simp add: heatmaps_block_def run_family_def bind_result_assoc)

lemma faceted_distributions_block_run:
  "faceted_distributions_block h df reg k (numeric g) (categorical g) secs =
     (if categorical g \<noteq> [] \<and> numeric g \<noteq> [] then run_family h df reg g k FacetedDistribution secs
      else Inr secs)"
  by (simp add: faceted_distributions_block_def run_family_def bind_result_assoc)

text \<open>
  The seven blocks of \<open>determine_charts\<close> are one pass over the planned families.
\<close>

lemma determine_charts_run:
  "determine_charts h df reg k =
     bind_result (classify_dtypes_default df) (\<lambda>g. run_families h df reg g k (planned g) [])"
  unfolding determine_charts_def Let_def planned_def run_families_append run_families_if
    histograms_block_run categorical_histograms_block_run scatter_block_run time_series_block_run
    value_plots_block_run heatmaps_block_run faceted_distributions_block_run
  by (rule refl)



lemma length_capped: "length (capped (Some k) xs) \<le> nat k"
  by (simp add: capped_def)

lemma set_capped: "set (capped k xs) \<subseteq> set xs"
  by (cases k) (auto simp: capped_def dest: in_set_takeD)


lemma length_slice_to: "0 \<le> k \<Longrightarrow> length (slice_to xs (Some k)) \<le> nat k"
  by simp














lemma build_from_snoc:
  "build_from h df reg (hs @ [\<lparr>family = fam, charts = [cands]\<rparr>]) =
     append_section (build_from h df reg hs) (make_section h fam df cands reg)"
  by (simp add: build_from_def append_section_def make_section_def)

lemma run_families_build_from:
  "run_families h df reg g k fams (build_from h df reg hs) =
     bind_result (run_families (\<lambda>fam df cands reg. [cands]) df () g k fams hs)
       (\<lambda>hs'. Inr (build_from h df reg hs'))"
proof (induction fams arbitrary: hs)
  case Nil
  show ?case by simp
next
  case (Cons fam fams)
  show ?case
  proof (cases "family_candidates g k fam")
    case (Inl e)
    then show ?thesis by (simp add: run_family_def)
  next
    case (Inr cands)
    have "run_families h df reg g k (fam # fams) (build_from h df reg hs)
            = run_families h df reg g k fams
                (build_from h df reg (hs @ [\<lparr>family = fam, charts = [cands]\<rparr>]))"
      by (simp add: run_family_def Inr build_from_snoc)
    also have "\<dots> = bind_result
                        (run_families (\<lambda>fam df cands reg. [cands]) df () g k fams
                           (hs @ [\<lparr>family = fam, charts = [cands]\<rparr>]))
                        (\<lambda>hs'. Inr (build_from h df reg hs'))"
      by (rule Cons.IH)
    also have "\<dots> = bind_result
                        (run_families (\<lambda>fam df cands reg. [cands]) df () g k (fam # fams) hs)
                        (\<lambda>hs'. Inr (build_from h df reg hs'))"
      by (simp add: run_family_def Inr append_section_def make_section_def)
    finally show ?thesis .
  qed
qed

text \<open>
  Whatever the helper, the sections of \<open>determine_charts\<close> are built from the candidates
  that \<open>handed_candidates\<close> records.
\<close>

lemma determine_charts_via_handed:
  "determine_charts h df reg k =
     bind_result (handed_candidates df k) (\<lambda>hs. Inr (build_from h df reg hs))"
proof (cases "classify_dtypes_default df")
  case (Inl e)
  then show ?thesis by (simp add: handed_candidates_def determine_charts_run)
next
  case (Inr g)
  have "build_from h df reg [] = []" by (simp add: build_from_def)
  then show ?thesis
    using run_families_build_from [of h df reg g k "planned g" "[]"]
    by (simp add: handed_candidates_def determine_charts_run Inr)
qed





section \<open>The candidates handed to the families\<close>

















section \<open>Time columns, the end-to-end example and the entry point\<close>



lemma inj_ColTriple: "inj (\<lambda>(t, v, s). ColTriple t v s)"
  by (auto simp: inj_on_def)














end
